theory Spec2Isabelle
  imports Main
begin

section \<open>Text: the string operations the program uses\<close>

text \<open>
  Python strings are modelled as \<^typ>\<open>string\<close>. The character classes below are
  Python's classes restricted to ASCII (code points below 128); a character beyond
  ASCII is treated as neither whitespace, nor a word character, nor cased.
\<close>

definition is_space :: "char \<Rightarrow> bool" where
  \<comment> \<open>\<^verbatim>\<open>str.isspace\<close> on ASCII: TAB, LF, VT, FF, CR, FS, GS, RS, US and the blank\<close>
  "is_space c =
     (c \<in> set [CHR 0x09, CHR 0x0A, CHR 0x0B, CHR 0x0C, CHR 0x0D,
                CHR 0x1C, CHR 0x1D, CHR 0x1E, CHR 0x1F, CHR 0x20])"

definition strip :: "string \<Rightarrow> string" where
  \<comment> \<open>\<^verbatim>\<open>s.strip()\<close>: leading and trailing whitespace removed\<close>
  "strip s = rev (dropWhile is_space (rev (dropWhile is_space s)))"

definition ascii_uppercase :: string where
  "ascii_uppercase = ''ABCDEFGHIJKLMNOPQRSTUVWXYZ''"

definition ascii_lowercase :: string where
  "ascii_lowercase = ''abcdefghijklmnopqrstuvwxyz''"

definition digits :: string where
  "digits = ''0123456789''"

definition lower_char :: "char \<Rightarrow> char" where
  "lower_char c =
     (case map_of (zip ascii_uppercase ascii_lowercase) c of Some l \<Rightarrow> l | None \<Rightarrow> c)"

definition lower :: "string \<Rightarrow> string" where
  \<comment> \<open>\<^verbatim>\<open>s.lower()\<close>\<close>
  "lower s = map lower_char s"

definition is_word_char :: "char \<Rightarrow> bool" where
  \<comment> \<open>the class \<^verbatim>\<open>\w\<close>: letters, digits and the underscore\<close>
  "is_word_char c = (c \<in> set (ascii_lowercase @ ascii_uppercase @ digits @ ''_''))"

definition is_pkg_char :: "char \<Rightarrow> bool" where
  \<comment> \<open>the class \<^verbatim>\<open>[\w\-]\<close>\<close>
  "is_pkg_char c = (is_word_char c \<or> c = CHR ''-'')"

fun strip_prefix :: "string \<Rightarrow> string \<Rightarrow> string option" where
  "strip_prefix [] s = Some s"
| "strip_prefix (p # ps) [] = None"
| "strip_prefix (p # ps) (c # cs) = (if p = c then strip_prefix ps cs else None)"

fun re_search :: "string \<Rightarrow> string option" where
  \<comment> \<open>\<^verbatim>\<open>re.search(r"pip install ([\w\-]+)", s)\<close>, then \<^verbatim>\<open>match.group(1) if match else None\<close>:
      the leftmost position where the literal is followed by at least one character of
      the class, and the longest run of the class there.\<close>
  "re_search [] = None"
| "re_search (c # cs) =
     (case strip_prefix ''pip install '' (c # cs) of
        Some rest \<Rightarrow>
          (if takeWhile is_pkg_char rest \<noteq> [] then Some (takeWhile is_pkg_char rest)
           else re_search cs)
      | None \<Rightarrow> re_search cs)"

definition root_component :: "string \<Rightarrow> string" where
  \<comment> \<open>\<^verbatim>\<open>name.split(".")[0]\<close>\<close>
  "root_component name = takeWhile (\<lambda>c. c \<noteq> CHR ''.'') name"


section \<open>Import extractor\<close>

text \<open>
  \<^verbatim>\<open>ast.parse\<close> belongs to the standard library; the extractor is modelled on the nodes
  that \<^verbatim>\<open>ast.walk(tree)\<close> yields. An \<^verbatim>\<open>ImportFrom\<close> node has the fields \<^verbatim>\<open>module\<close>
  (the name after \<^verbatim>\<open>from\<close> without its leading dots, or \<^verbatim>\<open>None\<close>), \<^verbatim>\<open>names\<close> and
  \<^verbatim>\<open>level\<close> (the number of leading dots): \<^verbatim>\<open>from . import X\<close> is
  \<^verbatim>\<open>ImportFrom(module=None, names=[X], level=1)\<close> and \<^verbatim>\<open>from .pkg import Y\<close> is
  \<^verbatim>\<open>ImportFrom(module='pkg', names=[Y], level=1)\<close>.
\<close>

datatype ast_alias = Alias (name: string) (asname: "string option")

datatype node =
    Import "ast_alias list"
  | ImportFrom "string option" "ast_alias list" nat
  | OtherNode

fun add_names :: "ast_alias list \<Rightarrow> string set \<Rightarrow> string set" where
  "add_names [] imports = imports"
| "add_names (a # as) imports = add_names as (insert (root_component (name a)) imports)"

fun walk_nodes :: "node list \<Rightarrow> string set \<Rightarrow> string set" where
  "walk_nodes [] imports = imports"
| "walk_nodes (Import names # ns) imports = walk_nodes ns (add_names names imports)"
| "walk_nodes (ImportFrom module names level # ns) imports =
     (case module of
        None \<Rightarrow> walk_nodes ns imports
      | Some m \<Rightarrow>
          (if m \<noteq> [] then walk_nodes ns (insert (root_component m) imports)
           else walk_nodes ns imports))"
| "walk_nodes (OtherNode # ns) imports = walk_nodes ns imports"

definition extract_imports :: "node list \<Rightarrow> string set" where
  "extract_imports tree = walk_nodes tree {}"


section \<open>Package name resolver\<close>

definition COMMON_MAP :: "(string \<times> string) list" where
  "COMMON_MAP =
     [(''bs4'', ''beautifulsoup4''),
      (''cv2'', ''opencv-python''),
      (''sklearn'', ''scikit-learn''),
      (''PIL'', ''pillow''),
      (''yaml'', ''pyyaml''),
      (''Crypto'', ''pycryptodome'')]"

definition resolve_package :: "string \<Rightarrow> string" where
  "resolve_package module =
     (if module \<in> fst ` set COMMON_MAP then the (map_of COMMON_MAP module) else module)"


section \<open>The outside world, events and programs\<close>

text \<open>
  The exceptions the program distinguishes: \<^verbatim>\<open>try_install\<close> catches
  \<^verbatim>\<open>FileNotFoundError\<close> first and every other \<^verbatim>\<open>Exception\<close> after it,
  \<^verbatim>\<open>is_real_pypi_package\<close> catches \<^verbatim>\<open>subprocess.CalledProcessError\<close> only.
  \<open>OtherException\<close> stands for any other subclass of \<^verbatim>\<open>Exception\<close>.
\<close>

datatype exn = FileNotFoundError | CalledProcessError | EOFError | OtherException

text \<open>One constructor for each \<^verbatim>\<open>print\<close> call of the program, with the values it interpolates.\<close>

datatype line =
    MsgIsStdlib string                      \<comment> \<open>line 120: module\<close>
  | MsgInstalling string string             \<comment> \<open>line 125: package, module\<close>
  | MsgInstalled string                     \<comment> \<open>line 89: package\<close>
  | MsgPipNotFound                          \<comment> \<open>line 92\<close>
  | MsgRunEnsurepip                         \<comment> \<open>line 93\<close>
  | MsgRunUpgradePip                        \<comment> \<open>line 94\<close>
  | MsgFailedInstall string string exn      \<comment> \<open>line 97: package, module, exception\<close>
  | MsgAIRequestFailed exn                  \<comment> \<open>line 74: exception\<close>
  | MsgNotRealPackage string                \<comment> \<open>line 136: suggested package\<close>
  | MsgExistsButFailed string               \<comment> \<open>line 147: suggested package\<close>
  | MsgAISuggests "string option"           \<comment> \<open>line 156: the AI's reply\<close>
  | MsgSkippedAlternative string            \<comment> \<open>line 161: module\<close>
  | MsgNoValidName string                   \<comment> \<open>line 163: module\<close>
  | MsgAlreadyInstalled string              \<comment> \<open>line 165: module\<close>

datatype pip_command =
    Install string     \<comment> \<open>\<^verbatim>\<open>[sys.executable, "-m", "pip", "install", package]\<close>\<close>
  | DryRun string      \<comment> \<open>\<^verbatim>\<open>[sys.executable, "-m", "pip", "install", "--dry-run", pkg]\<close>\<close>

datatype event =
    Print line
  | CheckCall pip_command       \<comment> \<open>\<^verbatim>\<open>subprocess.check_call\<close>\<close>
  | ChatCompletion string string  \<comment> \<open>\<^verbatim>\<open>client.chat.completions.create\<close>: module, context\<close>
  | Input string string           \<comment> \<open>\<^verbatim>\<open>input\<close> at line 157: suggested package, module\<close>

text \<open>
  Everything the program reads from outside. Each answer may depend on the events that
  happened before the call, so the same call can be answered differently at different
  times. \<open>check_call\<close> answers \<open>None\<close> when the subprocess exits with status 0 and the
  exception that \<^verbatim>\<open>subprocess.check_call\<close> raises otherwise; \<open>create\<close> answers the
  content of the first choice, or the exception raised while obtaining it.
\<close>

record world =
  stdlib_list :: "string list"
  find_spec :: "event list \<Rightarrow> string \<Rightarrow> exn + bool"
  check_call :: "event list \<Rightarrow> pip_command \<Rightarrow> exn option"
  create :: "event list \<Rightarrow> string \<Rightarrow> string \<Rightarrow> exn + string"
  input :: "event list \<Rightarrow> string \<Rightarrow> string \<Rightarrow> exn + string"

text \<open>
  A run of a piece of the program ends by returning a value, by \<^verbatim>\<open>sys.exit(n)\<close>, or with
  an exception nobody caught.
\<close>

datatype 'a result = Return 'a | Exit int | Uncaught exn

text \<open>
  A program takes the events so far and gives its result with the events it adds.
\<close>

type_synonym 'a prog = "event list \<Rightarrow> 'a result \<times> event list"

definition pure :: "'a \<Rightarrow> 'a prog" where
  "pure x h = (Return x, [])"

definition print :: "line \<Rightarrow> unit prog" where
  "print l h = (Return (), [Print l])"

definition and_then :: "'a prog \<Rightarrow> ('a \<Rightarrow> 'b prog) \<Rightarrow> 'b prog" where
  \<comment> \<open>sequencing: an exit or an uncaught exception in the first part skips the second\<close>
  "and_then m f h =
     (case m h of
        (Return x, es) \<Rightarrow> (case f x (h @ es) of (r, es') \<Rightarrow> (r, es @ es'))
      | (Exit n, es) \<Rightarrow> (Exit n, es)
      | (Uncaught e, es) \<Rightarrow> (Uncaught e, es))"



section \<open>AI query, installer and dry-run check\<close>

definition ask_ai_for_package :: "world \<Rightarrow> string \<Rightarrow> string \<Rightarrow> string option prog" where
  "ask_ai_for_package w module context h =
     (case create w h module context of
        Inr content \<Rightarrow> (Return (Some (strip content)), [ChatCompletion module context])
      | Inl e \<Rightarrow> (Return None, [ChatCompletion module context, Print (MsgAIRequestFailed e)]))"

definition try_install :: "world \<Rightarrow> string \<Rightarrow> string \<Rightarrow> bool prog" where
  "try_install w package module h =
     (case check_call w h (Install package) of
        None \<Rightarrow> (Return True, [CheckCall (Install package), Print (MsgInstalled package)])
      | Some e \<Rightarrow>
          (if e = FileNotFoundError
           then (Exit 1, [CheckCall (Install package),
                          Print MsgPipNotFound, Print MsgRunEnsurepip, Print MsgRunUpgradePip])
           else (Return False, [CheckCall (Install package),
                                Print (MsgFailedInstall package module e)])))"

definition is_real_pypi_package :: "world \<Rightarrow> string \<Rightarrow> bool prog" where
  "is_real_pypi_package w pkg h =
     (case check_call w h (DryRun pkg) of
        None \<Rightarrow> (Return True, [CheckCall (DryRun pkg)])
      | Some e \<Rightarrow>
          (if e = CalledProcessError then (Return False, [CheckCall (DryRun pkg)])
           else (Uncaught e, [CheckCall (DryRun pkg)])))"


section \<open>The decision loop\<close>

definition truthy :: "string option \<Rightarrow> bool" where
  \<comment> \<open>\<^verbatim>\<open>if s:\<close> for a value that is \<^verbatim>\<open>None\<close> or a string\<close>
  "truthy s = (case s of None \<Rightarrow> False | Some t \<Rightarrow> t \<noteq> [])"

definition or_empty :: "string option \<Rightarrow> string" where
  \<comment> \<open>\<^verbatim>\<open>s or ""\<close>\<close>
  "or_empty s = (case s of None \<Rightarrow> [] | Some t \<Rightarrow> t)"

definition initial_context :: string where
  "initial_context = ''Suggest a valid PyPI package replacement.''"

definition invalid_context :: string where
  "invalid_context = ''Your last answer was invalid. Give only a valid PyPI package name.''"

definition replacement_context :: "string \<Rightarrow> string" where
  "replacement_context suggested_pkg =
     ''The package '' @ [CHR 0x27] @ suggested_pkg @ [CHR 0x27]
       @ '' exists but fails to install. Suggest the modern supported replacement.''"

definition user_input :: "world \<Rightarrow> string \<Rightarrow> string \<Rightarrow> string prog" where
  \<comment> \<open>\<^verbatim>\<open>input(...)\<close> at line 157; an exception it raises (end of input) is not caught\<close>
  "user_input w suggested_pkg module h =
     (case input w h suggested_pkg module of
        Inr s \<Rightarrow> (Return s, [Input suggested_pkg module])
      | Inl e \<Rightarrow> (Uncaught e, [Input suggested_pkg module]))"

definition confirm_and_install ::
  "world \<Rightarrow> string \<Rightarrow> string option \<Rightarrow> string option \<Rightarrow> unit prog" where
  \<comment> \<open>lines 155 to 163\<close>
  "confirm_and_install w module ai_suggestion suggested_pkg =
     (if truthy suggested_pkg then
        and_then (is_real_pypi_package w (the suggested_pkg)) (\<lambda>real.
          if real then
            and_then (print (MsgAISuggests ai_suggestion)) (\<lambda>_.
            and_then (user_input w (the suggested_pkg) module) (\<lambda>answer.
              let choice = lower (strip answer) in
              if choice = ''y'' \<or> choice = ''Y'' then
                and_then (try_install w (the suggested_pkg) module) (\<lambda>_. pure ())
              else print (MsgSkippedAlternative module)))
          else print (MsgNoValidName module))
      else print (MsgNoValidName module))"

definition install_candidate ::
  "world \<Rightarrow> string \<Rightarrow> string option \<Rightarrow> string \<Rightarrow> (string option \<times> string option) prog" where
  \<comment> \<open>lines 146 to 153; returns \<^verbatim>\<open>ai_suggestion\<close> and \<^verbatim>\<open>suggested_pkg\<close> as they are afterwards\<close>
  "install_candidate w module ai_suggestion suggested_pkg =
     and_then (try_install w suggested_pkg module) (\<lambda>ok.
       if \<not> ok then
         and_then (print (MsgExistsButFailed suggested_pkg)) (\<lambda>_.
         and_then (ask_ai_for_package w module (replacement_context suggested_pkg)) (\<lambda>ai.
           pure (ai, re_search (or_empty ai))))
       else pure (ai_suggestion, Some suggested_pkg))"

definition handle_candidate ::
  "world \<Rightarrow> string \<Rightarrow> string option \<Rightarrow> string option \<Rightarrow> unit prog" where
  \<comment> \<open>lines 144 to 163\<close>
  "handle_candidate w module ai_suggestion suggested_pkg =
     (if truthy suggested_pkg then
        and_then (is_real_pypi_package w (the suggested_pkg)) (\<lambda>real.
          if real then
            and_then (install_candidate w module ai_suggestion (the suggested_pkg))
              (\<lambda>(ai, pkg). confirm_and_install w module ai pkg)
          else pure ())
      else pure ())"

definition ask_again_if_invalid ::
  "world \<Rightarrow> string \<Rightarrow> string option \<Rightarrow> string option \<Rightarrow> (string option \<times> string option) prog" where
  \<comment> \<open>lines 134 to 142; returns \<^verbatim>\<open>ai_suggestion\<close> and \<^verbatim>\<open>suggested_pkg\<close> as they are afterwards\<close>
  "ask_again_if_invalid w module ai_suggestion suggested_pkg =
     (if truthy suggested_pkg then
        and_then (is_real_pypi_package w (the suggested_pkg)) (\<lambda>real.
          if \<not> real then
            and_then (print (MsgNotRealPackage (the suggested_pkg))) (\<lambda>_.
            and_then (ask_ai_for_package w module invalid_context) (\<lambda>ai.
              pure (ai, re_search (or_empty ai))))
          else pure (ai_suggestion, suggested_pkg))
      else pure (ai_suggestion, suggested_pkg))"

definition ai_fallback :: "world \<Rightarrow> string \<Rightarrow> unit prog" where
  \<comment> \<open>lines 129 to 163\<close>
  "ai_fallback w module =
     and_then (ask_ai_for_package w module initial_context) (\<lambda>ai_suggestion.
       if truthy ai_suggestion then
         and_then (ask_again_if_invalid w module ai_suggestion
                     (re_search (the ai_suggestion)))
           (\<lambda>(ai, pkg). handle_candidate w module ai pkg)
       else pure ())"

definition process_module :: "world \<Rightarrow> string \<Rightarrow> unit prog" where
  \<comment> \<open>the body of the loop, lines 119 to 165\<close>
  "process_module w module h =
     (if module \<in> set (stdlib_list w) then print (MsgIsStdlib module) h
      else
        (case find_spec w h module of
           Inl e \<Rightarrow> (Uncaught e, [])
         | Inr found \<Rightarrow>
             if \<not> found then
               and_then (print (MsgInstalling (resolve_package module) module)) (\<lambda>_.
               and_then (try_install w (resolve_package module) module) (\<lambda>success.
                 if \<not> success then ai_fallback w module else pure ())) h
             else print (MsgAlreadyInstalled module) h))"


text \<open>
  The classification the loop makes with its two tests (lines 119 and 123).
\<close>

datatype classification = StdLib | Installed | Missing

definition classify :: "world \<Rightarrow> event list \<Rightarrow> string \<Rightarrow> exn + classification" where
  "classify w h module =
     (if module \<in> set (stdlib_list w) then Inr StdLib
      else
        (case find_spec w h module of
           Inl e \<Rightarrow> Inl e
         | Inr found \<Rightarrow> if \<not> found then Inr Missing else Inr Installed))"


section \<open>Reading the events of a run\<close>

fun ai_queries :: "event list \<Rightarrow> (string \<times> string) list" where
  \<comment> \<open>the queries sent to the completion service, in order: module and context\<close>
  "ai_queries [] = []"
| "ai_queries (ChatCompletion module context # es) = (module, context) # ai_queries es"
| "ai_queries (e # es) = ai_queries es"

fun pip_calls :: "event list \<Rightarrow> pip_command list" where
  \<comment> \<open>the package manager invocations, in order\<close>
  "pip_calls [] = []"
| "pip_calls (CheckCall c # es) = c # pip_calls es"
| "pip_calls (e # es) = pip_calls es"


fun printed :: "event list \<Rightarrow> line list" where
  \<comment> \<open>the lines printed, in order\<close>
  "printed [] = []"
| "printed (Print l # es) = l # printed es"
| "printed (e # es) = printed es"



section \<open>Event sequences of the candidate path\<close>







section \<open>Example worlds\<close>

text \<open>
  The module \<^verbatim>\<open>magic\<close> is neither in the standard library nor importable, and no
  package of that name installs. The AI first names \<^verbatim>\<open>python-magic-bin\<close>, which
  exists but fails to install, and then \<^verbatim>\<open>python-magic\<close>, which exists and
  installs. The user answers the prompt with \<open>answer\<close>.
\<close>

definition world_magic :: "string \<Rightarrow> world" where
  "world_magic answer =
     \<lparr>stdlib_list = [''os'', ''sys''],
      find_spec = (\<lambda>h m. Inr (m = ''os'' \<or> m = ''requests'')),
      check_call = (\<lambda>h c.
         if c = DryRun ''python-magic-bin'' \<or> c = DryRun ''python-magic''
            \<or> c = Install ''python-magic''
         then None else Some CalledProcessError),
      create = (\<lambda>h m context.
         if context = initial_context then Inr ''pip install python-magic-bin''
         else if context = replacement_context ''python-magic-bin''
         then Inr ''pip install python-magic''
         else Inl OtherException),
      input = (\<lambda>h p m. Inr answer)\<rparr>"

text \<open>
  No package installs or passes the dry-run check, and the AI answers every query with
  \<open>reply\<close>.
\<close>

definition world_unknown :: "string \<Rightarrow> world" where
  "world_unknown reply =
     \<lparr>stdlib_list = [''os'', ''sys''],
      find_spec = (\<lambda>h m. Inr (m = ''os'' \<or> m = ''requests'')),
      check_call = (\<lambda>h c. Some CalledProcessError),
      create = (\<lambda>h m context. Inr reply),
      input = (\<lambda>h p m. Inl EOFError)\<rparr>"

text \<open>The interpreter cannot start the package manager at all.\<close>

definition world_no_pip :: world where
  "world_no_pip =
     \<lparr>stdlib_list = [''os'', ''sys''],
      find_spec = (\<lambda>h m. Inr (m = ''os'' \<or> m = ''requests'')),
      check_call = (\<lambda>h c. Some FileNotFoundError),
      create = (\<lambda>h m context. Inr ''pip install requests''),
      input = (\<lambda>h p m. Inr ''y'')\<rparr>"


section \<open>Auxiliary facts\<close>

lemmas text_defs = is_space_def strip_def lower_def lower_char_def is_word_char_def
  is_pkg_char_def ascii_uppercase_def ascii_lowercase_def digits_def

lemmas prog_defs = and_then_def pure_def print_def ask_ai_for_package_def try_install_def
  is_real_pypi_package_def user_input_def


lemma ai_queries_append: "ai_queries (xs @ ys) = ai_queries xs @ ai_queries ys"
  by (induction xs rule: ai_queries.induct) auto

lemma q_and_then:
  "ai_queries (snd (and_then m f h)) =
     ai_queries (snd (m h)) @
       (case fst (m h) of
          Return x \<Rightarrow> ai_queries (snd (f x (h @ snd (m h))))
        | Exit n \<Rightarrow> []
        | Uncaught e \<Rightarrow> [])"
  by (simp add: and_then_def ai_queries_append split: prod.splits result.splits)

lemma q_is_real: "ai_queries (snd (is_real_pypi_package w p h)) = []"
  by (simp add: is_real_pypi_package_def split: option.splits)

lemma q_try_install: "ai_queries (snd (try_install w p m h)) = []"
  by (simp add: try_install_def split: option.splits)

lemma q_ask: "ai_queries (snd (ask_ai_for_package w m c h)) = [(m, c)]"
  by (simp add: ask_ai_for_package_def split: sum.splits)

lemma q_print: "ai_queries (snd (print l h)) = []"
  by (simp add: print_def)

lemma q_pure: "ai_queries (snd (pure x h)) = []"
  by (simp add: pure_def)

lemma q_confirm: "ai_queries (snd (confirm_and_install w module ai pkg h)) = []"
  unfolding confirm_and_install_def prog_defs
  by (auto simp: ai_queries_append Let_def
      split: option.splits sum.splits if_splits prod.splits result.splits)

lemmas q_simps = q_and_then q_is_real q_try_install q_ask q_print q_pure q_confirm

lemma q_install_candidate:
  "ai_queries (snd (install_candidate w module ai pkg h))
     \<in> {[], [(module, replacement_context pkg)]}"
  unfolding install_candidate_def
  by (auto simp: q_simps split: result.splits)

lemma q_handle:
  "ai_queries (snd (handle_candidate w module ai pkg h))
     \<in> {[], [(module, replacement_context (the pkg))]}"
  using q_install_candidate [of w module ai "the pkg"]
  unfolding handle_candidate_def
  by (auto simp: q_simps split: prod.splits result.splits)

lemma q_ask_again:
  "ai_queries (snd (ask_again_if_invalid w module ai pkg h))
     \<in> {[], [(module, invalid_context)]}"
  unfolding ask_again_if_invalid_def
  by (auto simp: q_simps split: prod.splits result.splits)

lemma q_fallback:
  "\<exists>p. ai_queries (snd (ai_fallback w module h)) \<in> set
     [[(module, initial_context)],
      [(module, initial_context), (module, invalid_context)],
      [(module, initial_context), (module, replacement_context p)],
      [(module, initial_context), (module, invalid_context),
       (module, replacement_context p)]]"
proof (cases "fst (ask_ai_for_package w module initial_context h)")
  case first: (Return ai)
  show ?thesis
  proof (cases "truthy ai")
    case True
    let ?h1 = "h @ snd (ask_ai_for_package w module initial_context h)"
    let ?again = "ask_again_if_invalid w module ai (re_search (the ai)) ?h1"
    have again: "ai_queries (snd ?again) \<in> {[], [(module, invalid_context)]}"
      by (rule q_ask_again)
    show ?thesis
    proof (cases "fst ?again")
      case (Return x)
      obtain ai2 pkg2 where x: "x = (ai2, pkg2)" by (cases x)
      let ?handle = "handle_candidate w module ai2 pkg2 (?h1 @ snd ?again)"
      have handle: "ai_queries (snd ?handle) \<in> {[], [(module, replacement_context (the pkg2))]}"
        by (rule q_handle)
      have "ai_queries (snd (ai_fallback w module h)) =
              (module, initial_context) # ai_queries (snd ?again) @ ai_queries (snd ?handle)"
        unfolding ai_fallback_def using first True Return x by (simp add: q_simps)
      with again handle show ?thesis by (intro exI [of _ "the pkg2"]) auto
    next
      case (Exit n)
      have "ai_queries (snd (ai_fallback w module h)) =
              (module, initial_context) # ai_queries (snd ?again)"
        unfolding ai_fallback_def using first True Exit by (simp add: q_simps)
      with again show ?thesis by auto
    next
      case (Uncaught e)
      have "ai_queries (snd (ai_fallback w module h)) =
              (module, initial_context) # ai_queries (snd ?again)"
        unfolding ai_fallback_def using first True Uncaught by (simp add: q_simps)
      with again show ?thesis by auto
    qed
  next
    case False
    with first show ?thesis unfolding ai_fallback_def by (simp add: q_simps)
  qed
next
  case (Exit n)
  then show ?thesis unfolding ai_fallback_def by (simp add: q_simps)
next
  case (Uncaught e)
  then show ?thesis unfolding ai_fallback_def by (simp add: q_simps)
qed

lemma q_fallback_nonempty: "ai_queries (snd (ai_fallback w module h)) \<noteq> []"
  using q_fallback [of w module h] by auto

lemma q_process:
  "ai_queries (snd (process_module w module h)) = [] \<or>
   (\<exists>p. ai_queries (snd (process_module w module h)) \<in> set
      [[(module, initial_context)],
       [(module, initial_context), (module, invalid_context)],
       [(module, initial_context), (module, replacement_context p)],
       [(module, initial_context), (module, invalid_context),
        (module, replacement_context p)]])"
  using q_fallback [of w module]
  unfolding process_module_def
  by (auto simp: q_simps split: sum.splits result.splits simp del: set_simps)

lemma add_names_acc: "add_names names S = S \<union> add_names names {}"
proof (induction names arbitrary: S)
  case Nil
  then show ?case by simp
next
  case (Cons a as)
  show ?case
    using Cons [of "insert (root_component (name a)) S"] Cons [of "{root_component (name a)}"]
    by auto
qed

lemma walk_nodes_append: "walk_nodes (xs @ ys) S = walk_nodes ys (walk_nodes xs S)"
  by (induction xs S rule: walk_nodes.induct) (auto split: option.splits)


lemma walk_nodes_acc: "walk_nodes tree S = S \<union> walk_nodes tree {}"
proof (induction tree arbitrary: S)
  case Nil
  then show ?case by simp
next
  case (Cons n ns)
  show ?case
  proof (cases n)
    case (Import names)
    show ?thesis
      using Cons [of "add_names names S"] Cons [of "add_names names {}"]
        add_names_acc [of names S]
      by (auto simp: Import)
  next
    case (ImportFrom module names level)
    show ?thesis
      using Cons [of "insert (root_component (the module)) S"]
        Cons [of "{root_component (the module)}"] Cons [of S]
      by (auto simp: ImportFrom split: option.splits)
  next
    case OtherNode
    then show ?thesis using Cons [of S] by simp
  qed
qed






lemmas world_defs = world_magic_def world_unknown_def world_no_pip_def
  initial_context_def invalid_context_def replacement_context_def

lemmas loop_defs = process_module_def ai_fallback_def ask_again_if_invalid_def
  handle_candidate_def install_candidate_def confirm_and_install_def
  truthy_def or_empty_def resolve_package_def COMMON_MAP_def




















lemma run_unknown_invalid_twice:
  "process_module (world_unknown ''pip install totally-unknown-mod'')
      ''totally_unknown_mod'' [] =
     (Return (),
      [Print (MsgInstalling ''totally_unknown_mod'' ''totally_unknown_mod''),
       CheckCall (Install ''totally_unknown_mod''),
       Print (MsgFailedInstall ''totally_unknown_mod'' ''totally_unknown_mod''
                CalledProcessError),
       ChatCompletion ''totally_unknown_mod'' initial_context,
       CheckCall (DryRun ''totally-unknown-mod''),
       Print (MsgNotRealPackage ''totally-unknown-mod''),
       ChatCompletion ''totally_unknown_mod'' invalid_context,
       CheckCall (DryRun ''totally-unknown-mod'')])"
  by (simp add: loop_defs world_defs prog_defs text_defs)

lemma run_unknown_no_name:
  "process_module (world_unknown ''Sorry, I do not know that module.'')
      ''totally_unknown_mod'' [] =
     (Return (),
      [Print (MsgInstalling ''totally_unknown_mod'' ''totally_unknown_mod''),
       CheckCall (Install ''totally_unknown_mod''),
       Print (MsgFailedInstall ''totally_unknown_mod'' ''totally_unknown_mod''
                CalledProcessError),
       ChatCompletion ''totally_unknown_mod'' initial_context])"
  by (simp add: loop_defs world_defs prog_defs text_defs)


section \<open>The claims\<close>




text \<open>
  C2. For every module processed, at most three queries go to the completion service:
  the initial one, then at most one after an invalid suggestion, then at most one after
  a package that exists but fails to install, in this order and all about this module.
\<close>

theorem ai_queries_at_most_three:
  "length (ai_queries (snd (process_module w module h))) \<le> 3 \<and>
   (\<exists>p. ai_queries (snd (process_module w module h)) \<in> set
      [[],
       [(module, initial_context)],
       [(module, initial_context), (module, invalid_context)],
       [(module, initial_context), (module, replacement_context p)],
       [(module, initial_context), (module, invalid_context),
        (module, replacement_context p)]])"
  using q_process [of w module h] by auto

text \<open>
  C3. The completion service is queried for a module if and only if the module was
  classified as missing and the direct install attempt (the call of \<^verbatim>\<open>try_install\<close> at
  line 126, made after the line announcing it) returned \<^verbatim>\<open>False\<close>. For a module classified
  as standard library or as installed it is never queried.
\<close>

theorem ai_fallback_iff_direct_install_failed:
  "(ai_queries (snd (process_module w module h)) \<noteq> [] \<longleftrightarrow>
      classify w h module = Inr Missing \<and>
      fst (try_install w (resolve_package module) module
             (h @ [Print (MsgInstalling (resolve_package module) module)])) = Return False)
   \<and> (classify w h module = Inr StdLib \<or> classify w h module = Inr Installed \<longrightarrow>
        ai_queries (snd (process_module w module h)) = [])"
  unfolding process_module_def classify_def
  by (auto simp: q_simps q_fallback_nonempty print_def split: sum.splits result.splits)

theorem ai_fallback_iff_direct_install_failed_witness:
  "classify (world_magic ''n'') [] ''magic'' = Inr Missing \<and>
   fst (try_install (world_magic ''n'') (resolve_package ''magic'') ''magic''
          ([] @ [Print (MsgInstalling (resolve_package ''magic'') ''magic'')])) = Return False \<and>
   ai_queries (snd (process_module (world_magic ''n'') ''magic'' [])) \<noteq> [] \<and>
   classify (world_magic ''n'') [] ''os'' = Inr StdLib \<and>
   ai_queries (snd (process_module (world_magic ''n'') ''os'' [])) = [] \<and>
   classify (world_magic ''n'') [] ''requests'' = Inr Installed \<and>
   ai_queries (snd (process_module (world_magic ''n'') ''requests'' [])) = []"
proof -
  let ?w = "world_magic ''n''"
  have m1: "classify ?w [] ''magic'' = Inr Missing"
    by (simp add: classify_def world_defs)
  have m2: "fst (try_install ?w (resolve_package ''magic'') ''magic''
          ([] @ [Print (MsgInstalling (resolve_package ''magic'') ''magic'')])) = Return False"
    by (simp add: try_install_def resolve_package_def COMMON_MAP_def world_defs)
  have m3: "ai_queries (snd (process_module ?w ''magic'' [])) \<noteq> []"
    using ai_fallback_iff_direct_install_failed [of ?w "''magic''" "[]"] m1 m2 by blast
  have o1: "classify ?w [] ''os'' = Inr StdLib"
    by (simp add: classify_def world_defs)
  have o2: "ai_queries (snd (process_module ?w ''os'' [])) = []"
    using ai_fallback_iff_direct_install_failed [of ?w "''os''" "[]"] o1 by blast
  have r1: "classify ?w [] ''requests'' = Inr Installed"
    by (simp add: classify_def world_defs)
  have r2: "ai_queries (snd (process_module ?w ''requests'' [])) = []"
    using ai_fallback_iff_direct_install_failed [of ?w "''requests''" "[]"] r1 by blast
  from m1 m2 m3 o1 o2 r1 r2 show ?thesis by blast
qed

text \<open>
  C4, at the inputs where the code departs from it. The direct install of
  \<^verbatim>\<open>totally_unknown_mod\<close> fails and the AI names a package that does not exist, twice:
  the run of the module ends after the second dry-run check, and the last line printed
  is the one announcing the second query, which names the package and not the module.
  When the AI's reply holds no \<^verbatim>\<open>pip install <name>\<close> at all, nothing is printed after
  the query. Both runs return normally, and neither prints one of the two closing lines
  (lines 161 and 163).
\<close>

theorem no_terminating_warning_for_unusable_suggestion:
  "process_module (world_unknown ''pip install totally-unknown-mod'')
      ''totally_unknown_mod'' [] =
     (Return (),
      [Print (MsgInstalling ''totally_unknown_mod'' ''totally_unknown_mod''),
       CheckCall (Install ''totally_unknown_mod''),
       Print (MsgFailedInstall ''totally_unknown_mod'' ''totally_unknown_mod''
                CalledProcessError),
       ChatCompletion ''totally_unknown_mod'' initial_context,
       CheckCall (DryRun ''totally-unknown-mod''),
       Print (MsgNotRealPackage ''totally-unknown-mod''),
       ChatCompletion ''totally_unknown_mod'' invalid_context,
       CheckCall (DryRun ''totally-unknown-mod'')]) \<and>
   last (printed (snd (process_module (world_unknown ''pip install totally-unknown-mod'')
      ''totally_unknown_mod'' []))) = MsgNotRealPackage ''totally-unknown-mod'' \<and>
   process_module (world_unknown ''Sorry, I do not know that module.'')
      ''totally_unknown_mod'' [] =
     (Return (),
      [Print (MsgInstalling ''totally_unknown_mod'' ''totally_unknown_mod''),
       CheckCall (Install ''totally_unknown_mod''),
       Print (MsgFailedInstall ''totally_unknown_mod'' ''totally_unknown_mod''
                CalledProcessError),
       ChatCompletion ''totally_unknown_mod'' initial_context]) \<and>
   printed (snd (process_module (world_unknown ''Sorry, I do not know that module.'')
      ''totally_unknown_mod'' [])) =
     [MsgInstalling ''totally_unknown_mod'' ''totally_unknown_mod'',
      MsgFailedInstall ''totally_unknown_mod'' ''totally_unknown_mod'' CalledProcessError]"
  by (simp add: run_unknown_invalid_twice run_unknown_no_name)

text \<open>
  C5. The resolver returns the mapped package for a module of the static map, which is
  never the module name itself, and the module name for every other module; \<^verbatim>\<open>cv2\<close>
  resolves to \<^verbatim>\<open>opencv-python\<close>.
\<close>

theorem resolve_package_static_map:
  "(map_of COMMON_MAP module = Some package \<longrightarrow>
      resolve_package module = package \<and> resolve_package module \<noteq> module)
   \<and> (map_of COMMON_MAP module = None \<longrightarrow> resolve_package module = module)
   \<and> resolve_package ''cv2'' = ''opencv-python''"
  by (auto simp: resolve_package_def COMMON_MAP_def split: if_splits)

theorem resolve_package_static_map_witness:
  "map_of COMMON_MAP ''bs4'' = Some ''beautifulsoup4'' \<and>
   resolve_package ''bs4'' = ''beautifulsoup4'' \<and>
   map_of COMMON_MAP ''requests'' = None \<and>
   resolve_package ''requests'' = ''requests''"
proof -
  have a: "map_of COMMON_MAP ''bs4'' = Some ''beautifulsoup4''"
    by (simp add: COMMON_MAP_def)
  have b: "map_of COMMON_MAP ''requests'' = None"
    by (simp add: COMMON_MAP_def)
  from resolve_package_static_map [of "''bs4''" "''beautifulsoup4''"] a
  have c: "resolve_package ''bs4'' = ''beautifulsoup4''" by blast
  from resolve_package_static_map [of "''requests''" "[]"] b
  have d: "resolve_package ''requests'' = ''requests''" by blast
  from a b c d show ?thesis by blast
qed

text \<open>
  C6, as the code has it. A module of the standard-library list is classified as
  standard library, and a module that is not in that list and is importable is classified
  as installed; in both cases the loop body prints one status line and does nothing
  else, so no install is attempted.
\<close>

theorem stdlib_and_installed_skip_install:
  "(module \<in> set (stdlib_list w) \<longrightarrow>
      classify w h module = Inr StdLib \<and>
      process_module w module h = (Return (), [Print (MsgIsStdlib module)]) \<and>
      pip_calls (snd (process_module w module h)) = [])
   \<and> (module \<notin> set (stdlib_list w) \<and> find_spec w h module = Inr True \<longrightarrow>
      classify w h module = Inr Installed \<and>
      process_module w module h = (Return (), [Print (MsgAlreadyInstalled module)]) \<and>
      pip_calls (snd (process_module w module h)) = [])"
  by (simp add: classify_def process_module_def print_def)

theorem stdlib_and_installed_skip_install_witness:
  "''sys'' \<in> set (stdlib_list world_no_pip) \<and>
   process_module world_no_pip ''sys'' [] = (Return (), [Print (MsgIsStdlib ''sys'')]) \<and>
   ''requests'' \<notin> set (stdlib_list world_no_pip) \<and>
   find_spec world_no_pip [] ''requests'' = Inr True \<and>
   classify world_no_pip [] ''requests'' = Inr Installed \<and>
   process_module world_no_pip ''requests'' [] =
     (Return (), [Print (MsgAlreadyInstalled ''requests'')])"
proof -
  have a: "''sys'' \<in> set (stdlib_list world_no_pip)"
    by (simp add: world_defs)
  have b: "''requests'' \<notin> set (stdlib_list world_no_pip) \<and>
           find_spec world_no_pip [] ''requests'' = Inr True"
    by (simp add: world_defs)
  from stdlib_and_installed_skip_install [of "''sys''" world_no_pip "[]"] a
  have c: "process_module world_no_pip ''sys'' [] = (Return (), [Print (MsgIsStdlib ''sys'')])"
    by blast
  from stdlib_and_installed_skip_install [of "''requests''" world_no_pip "[]"] b
  have d: "classify world_no_pip [] ''requests'' = Inr Installed \<and>
           process_module world_no_pip ''requests'' [] =
             (Return (), [Print (MsgAlreadyInstalled ''requests'')])"
    by blast
  from a b c d show ?thesis by blast
qed

text \<open>
  C6 as the claim states it fails. The module \<^verbatim>\<open>os\<close> is importable in the current
  environment, and it is classified as standard library, not as installed: the
  standard-library test comes first.
\<close>

theorem importable_stdlib_module_counterexample:
  "find_spec world_no_pip [] ''os'' = Inr True \<and>
   classify world_no_pip [] ''os'' = Inr StdLib \<and>
   classify world_no_pip [] ''os'' \<noteq> Inr Installed \<and>
   process_module world_no_pip ''os'' [] = (Return (), [Print (MsgIsStdlib ''os'')])"
  by (simp add: classify_def process_module_def print_def world_defs)



text \<open>
  C8, as the code has it. An \<^verbatim>\<open>ImportFrom\<close> node whose module attribute is \<^verbatim>\<open>None\<close> or
  empty (as for \<^verbatim>\<open>from . import X\<close>) adds nothing to the import set, wherever it stands
  in the tree. A node that names a module adds the root component of that name, whatever
  its level.
\<close>

theorem moduleless_import_from_ignored:
  "(module = None \<or> module = Some [] \<longrightarrow>
      extract_imports (before @ ImportFrom module names level # after) =
        extract_imports (before @ after))
   \<and> (\<forall>m. module = Some m \<and> m \<noteq> [] \<longrightarrow>
      extract_imports (before @ ImportFrom module names level # after) =
        insert (root_component m) (extract_imports (before @ after)))"
proof (intro conjI allI impI)
  assume "module = None \<or> module = Some []"
  then show "extract_imports (before @ ImportFrom module names level # after) =
        extract_imports (before @ after)"
    by (auto simp: extract_imports_def walk_nodes_append)
next
  fix m
  assume m: "module = Some m \<and> m \<noteq> []"
  have "walk_nodes after (insert (root_component m) (walk_nodes before {})) =
          insert (root_component m) (walk_nodes after (walk_nodes before {}))"
    using walk_nodes_acc [of after "insert (root_component m) (walk_nodes before {})"]
      walk_nodes_acc [of after "walk_nodes before {}"]
    by auto
  with m show "extract_imports (before @ ImportFrom module names level # after) =
        insert (root_component m) (extract_imports (before @ after))"
    by (simp add: extract_imports_def walk_nodes_append)
qed

theorem moduleless_import_from_ignored_witness:
  "extract_imports
     ([Import [Alias ''os.path'' None]] @ ImportFrom None [Alias ''X'' None] 1 #
      [ImportFrom (Some ''bs4.element'') [Alias ''Tag'' None] 0]) =
   extract_imports
     ([Import [Alias ''os.path'' None]] @
      [ImportFrom (Some ''bs4.element'') [Alias ''Tag'' None] 0]) \<and>
   extract_imports ([] @ ImportFrom (Some ''bs4.element'') [Alias ''Tag'' None] 0 # []) =
     insert (root_component ''bs4.element'') (extract_imports ([] @ []))"
proof -
  have a: "(None :: string option) = None \<or> (None :: string option) = Some []" by simp
  have b: "Some ''bs4.element'' = Some ''bs4.element'' \<and> ''bs4.element'' \<noteq> []" by simp
  from moduleless_import_from_ignored
      [of None "[Import [Alias ''os.path'' None]]" "[Alias ''X'' None]" 1
          "[ImportFrom (Some ''bs4.element'') [Alias ''Tag'' None] 0]"] a
  have c: "extract_imports
     ([Import [Alias ''os.path'' None]] @ ImportFrom None [Alias ''X'' None] 1 #
      [ImportFrom (Some ''bs4.element'') [Alias ''Tag'' None] 0]) =
   extract_imports
     ([Import [Alias ''os.path'' None]] @
      [ImportFrom (Some ''bs4.element'') [Alias ''Tag'' None] 0])"
    by blast
  from moduleless_import_from_ignored
      [of "Some ''bs4.element''" "[]" "[Alias ''Tag'' None]" 0 "[]"] b
  have d: "extract_imports ([] @ ImportFrom (Some ''bs4.element'') [Alias ''Tag'' None] 0 # []) =
     insert (root_component ''bs4.element'') (extract_imports ([] @ []))"
    by blast
  from c d show ?thesis by blast
qed

text \<open>
  C8 as the claim states it fails. The statement \<^verbatim>\<open>from .pkg import Y\<close> is the node
  \<^verbatim>\<open>ImportFrom(module='pkg', names=[Y], level=1)\<close>, and the extractor adds \<^verbatim>\<open>pkg\<close> to
  the import set.
\<close>

theorem relative_import_with_module_counterexample:
  "extract_imports [ImportFrom (Some ''pkg'') [Alias ''Y'' None] 1] = {''pkg''}"
  by (simp add: extract_imports_def root_component_def)



text \<open>
  C10. The dry-run check answers \<^verbatim>\<open>False\<close> when the subprocess exits with a failure.
  When the package manager cannot be started, the \<^verbatim>\<open>FileNotFoundError\<close> leaves the check
  uncaught: the check neither returns \<^verbatim>\<open>False\<close> nor exits the process with the guidance
  of the installer, nothing is printed, and whatever was to follow the check is skipped.
  Every exception other than the failed exit leaves the check in the same way.
\<close>

theorem dry_run_missing_pip_uncaught:
  "(check_call w h (DryRun pkg) = Some CalledProcessError \<longrightarrow>
      is_real_pypi_package w pkg h = (Return False, [CheckCall (DryRun pkg)]))
   \<and> (check_call w h (DryRun pkg) = Some FileNotFoundError \<longrightarrow>
      is_real_pypi_package w pkg h =
        (Uncaught FileNotFoundError, [CheckCall (DryRun pkg)]) \<and>
      and_then (is_real_pypi_package w pkg) f h =
        (Uncaught FileNotFoundError, [CheckCall (DryRun pkg)]))
   \<and> (\<forall>e. check_call w h (DryRun pkg) = Some e \<and> e \<noteq> CalledProcessError \<longrightarrow>
      fst (is_real_pypi_package w pkg h) = Uncaught e)"
  by (auto simp: is_real_pypi_package_def and_then_def)

theorem dry_run_missing_pip_uncaught_witness:
  "check_call (world_unknown []) [] (DryRun ''requests'') = Some CalledProcessError \<and>
   is_real_pypi_package (world_unknown []) ''requests'' [] =
     (Return False, [CheckCall (DryRun ''requests'')]) \<and>
   check_call world_no_pip [] (DryRun ''requests'') = Some FileNotFoundError \<and>
   is_real_pypi_package world_no_pip ''requests'' [] =
     (Uncaught FileNotFoundError, [CheckCall (DryRun ''requests'')])"
proof -
  have a: "check_call (world_unknown []) [] (DryRun ''requests'') = Some CalledProcessError"
    by (simp add: world_defs)
  have b: "check_call world_no_pip [] (DryRun ''requests'') = Some FileNotFoundError"
    by (simp add: world_defs)
  from dry_run_missing_pip_uncaught [of "world_unknown []" "[]" "''requests''"] a
  have c: "is_real_pypi_package (world_unknown []) ''requests'' [] =
     (Return False, [CheckCall (DryRun ''requests'')])"
    by blast
  from dry_run_missing_pip_uncaught [of world_no_pip "[]" "''requests''"] b
  have d: "is_real_pypi_package world_no_pip ''requests'' [] =
     (Uncaught FileNotFoundError, [CheckCall (DryRun ''requests'')])"
    by blast
  from a b c d show ?thesis by blast
qed

end
